theory Spec2Isabelle
  imports Main
begin

section \<open>Go values and results\<close>

text \<open>
  The handlers of \<^verbatim>\<open>pkg/tools/handler.go\<close> receive the arguments of a tool call as a
  Go \<^verbatim>\<open>any\<close>. A value of that type carries a dynamic type; the cases below are the ones
  the handlers can tell apart. \<open>GoNil\<close> is the nil interface, \<open>GoMap None\<close> is the nil
  map of type \<^verbatim>\<open>map[string]interface{}\<close> and \<open>GoMap (Some m)\<close> an allocated one.
  \<open>GoOther t\<close> stands for a value of any other dynamic type, \<open>t\<close> being what
  \<^verbatim>\<open>%T\<close> prints for it.
\<close>

datatype go_value =
    GoNil
  | GoString string
  | GoBool bool
  | GoInt int
  | GoSlice "go_value list"
  | GoMap "(string \<Rightarrow> go_value option) option"
  | GoOther string

type_synonym go_map = "(string \<Rightarrow> go_value option) option"

text \<open>A call either returns or panics; a panic carries the runtime's message.\<close>

datatype 'a go_result = Panicked string | Returned 'a

text \<open>What \<^verbatim>\<open>%T\<close> prints.\<close>

fun type_name :: "go_value \<Rightarrow> string" where
  "type_name GoNil = ''<nil>''"
| "type_name (GoString s) = ''string''"
| "type_name (GoBool b) = ''bool''"
| "type_name (GoInt i) = ''int''"
| "type_name (GoSlice xs) = ''[]interface {}''"
| "type_name (GoMap m) = ''map[string]interface {}''"
| "type_name (GoOther t) = t"

text \<open>
  The type assertion \<^verbatim>\<open>v.(map[string]interface{})\<close> in its comma-ok form: \<open>None\<close> when
  \<^verbatim>\<open>ok\<close> is false. It succeeds on the nil map of that type.
\<close>

fun assert_map :: "go_value \<Rightarrow> go_map option" where
  "assert_map (GoMap m) = Some m"
| "assert_map v = None"

text \<open>\<^verbatim>\<open>s, _ := v.(string)\<close>: the zero value when the assertion fails.\<close>

fun assert_string :: "go_value \<Rightarrow> string" where
  "assert_string (GoString s) = s"
| "assert_string v = []"

text \<open>
  Reading \<^verbatim>\<open>m[k]\<close> yields the zero value (the nil interface) for a missing key and
  for the nil map. Writing \<^verbatim>\<open>m[k] = v\<close> panics on the nil map.
\<close>

definition map_index :: "go_map \<Rightarrow> string \<Rightarrow> go_value" where
  "map_index m k =
     (case m of
        None \<Rightarrow> GoNil
      | Some f \<Rightarrow> (case f k of None \<Rightarrow> GoNil | Some v \<Rightarrow> v))"

definition map_assign :: "go_map \<Rightarrow> string \<Rightarrow> go_value \<Rightarrow> go_map go_result" where
  "map_assign m k v =
     (case m of
        None \<Rightarrow> Panicked ''assignment to entry in nil map''
      | Some f \<Rightarrow> Returned (Some (f(k \<mapsto> v))))"

text \<open>The message of the panic when a field is reached through a nil pointer.\<close>

definition nil_dereference :: string where
  "nil_dereference = ''runtime error: invalid memory address or nil pointer dereference''"

section \<open>Security configuration\<close>

text \<open>
  The three tiers \<^verbatim>\<open>security.AccessLevelReadOnly\<close>, \<^verbatim>\<open>AccessLevelReadWrite\<close> and
  \<^verbatim>\<open>AccessLevelAdmin\<close> that \<^verbatim>\<open>ParseFlags\<close> assigns.
\<close>

datatype AccessLevel = AccessLevelReadOnly | AccessLevelReadWrite | AccessLevelAdmin

record SecurityConfig =
  sec_AccessLevel :: AccessLevel
  allowedNamespaces :: "string set"

text \<open>
  Modelled from the spec: \<^verbatim>\<open>security.NewSecurityConfig\<close> is not among the source files.
  It returns a pointer to a fresh configuration whose namespace set is empty, which
  the spec reads as "all namespaces allowed". The spec does not give the initial tier;
  the lowest one is taken here and \<^verbatim>\<open>ParseFlags\<close> overwrites it.
\<close>

definition NewSecurityConfig :: "SecurityConfig option" where
  "NewSecurityConfig =
     Some \<lparr>sec_AccessLevel = AccessLevelReadOnly, allowedNamespaces = {}\<rparr>"

section \<open>Configuration\<close>

text \<open>
  \<^verbatim>\<open>config.ConfigData\<close>. A Go map and a pointer can be nil, hence the options; the
  type parameter is the state of whatever implements the telemetry interface.
\<close>

record 's ConfigData =
  AdditionalTools :: "(string \<Rightarrow> bool option) option"
  Timeout :: int
  SecurityConfig :: "SecurityConfig option"
  Transport :: string
  Host :: string
  Port :: int
  AccessLevel :: string
  AllowNamespaces :: string
  OTLPEndpoint :: string
  TelemetryService :: "'s option"

definition NewConfig :: "'s ConfigData" where
  "NewConfig =
     \<lparr>AdditionalTools = Some Map.empty,
      Timeout = 60,
      SecurityConfig = NewSecurityConfig,
      Transport = ''stdio'',
      Host = [],
      Port = 8000,
      AccessLevel = ''readonly'',
      AllowNamespaces = [],
      OTLPEndpoint = [],
      TelemetryService = None\<rparr>"

section \<open>Tool handlers\<close>

text \<open>
  The request and result types come from the \<^verbatim>\<open>mcp-go\<close> library. Of a request the
  handlers read \<^verbatim>\<open>Params.Name\<close> and \<^verbatim>\<open>Params.Arguments\<close>. A result holds its text
  contents and the \<^verbatim>\<open>IsError\<close> flag; \<^verbatim>\<open>NewToolResultText\<close> and
  \<^verbatim>\<open>NewToolResultError\<close> build a result with one text content, the latter flagged
  as an error.
\<close>

record CallToolParams =
  Name :: string
  Arguments :: go_value

record CallToolRequest =
  Params :: CallToolParams

record CallToolResult =
  Content :: "string list"
  IsError :: bool

definition NewToolResultText :: "string \<Rightarrow> CallToolResult" where
  "NewToolResultText text = \<lparr>Content = [text], IsError = False\<rparr>"

definition NewToolResultError :: "string \<Rightarrow> CallToolResult" where
  "NewToolResultError text = \<lparr>Content = [text], IsError = True\<rparr>"

text \<open>
  \<^verbatim>\<open>CommandExecutor.Execute(args, cfg) (string, error)\<close>. An error is its message,
  \<open>None\<close> is the nil error. A Go map is shared between caller and callee, so
  \<^verbatim>\<open>Execute\<close> may write to the arguments map it is given and the handler reads the
  map as \<^verbatim>\<open>Execute\<close> left it: what \<^verbatim>\<open>Execute\<close> gives back holds, besides its two
  results, the entries of the arguments map at its return. No implementation is
  among the source files but the test's mock, so an executor is any such function of
  the arguments map and the configuration; it is taken to return and to leave the
  configuration as it is.
\<close>

record execution =
  returned_text :: string
  returned_error :: "string option"
  map_after :: "string \<Rightarrow> go_value option"

type_synonym 's CommandExecutor = "go_map \<Rightarrow> 's ConfigData \<Rightarrow> execution"

text \<open>
  The arguments map as the handler finds it after \<^verbatim>\<open>Execute\<close>: the nil map has no
  entries that could have been written.
\<close>

definition after_Execute :: "go_map \<Rightarrow> execution \<Rightarrow> go_map" where
  "after_Execute args ex = (case args of None \<Rightarrow> None | Some f \<Rightarrow> Some (map_after ex))"

text \<open>
  A handler works on two collaborators, the executor and the telemetry service of the
  configuration. What it does to them is the sequence of calls it makes, in order:
  \<open>Execute args\<close> for \<^verbatim>\<open>executor.Execute(args, cfg)\<close> and
  \<open>TrackToolInvocation toolName operation success\<close> for the call of that name on
  \<^verbatim>\<open>cfg.TelemetryService\<close>. A run of a handler is these calls together with its
  outcome: the pair \<^verbatim>\<open>(*mcp.CallToolResult, error)\<close> of the return statement it
  reaches, or the panic of one of its own steps. The outcome is that of the handler's
  steps; what the service's method does with a call, a panic included, is added by
  \<open>handler_result\<close> below.
\<close>

datatype call = Execute go_map | TrackToolInvocation string string bool

record handler_run =
  calls :: "call list"
  outcome :: "(CallToolResult option \<times> string option) go_result"

definition arguments_error :: "go_value \<Rightarrow> string" where
  "arguments_error v = ''arguments must be a map[string]interface{}, got '' @ type_name v"

definition CreateToolHandler ::
  "'s CommandExecutor \<Rightarrow> 's ConfigData \<Rightarrow> CallToolRequest \<Rightarrow> handler_run" where
  "CreateToolHandler executor cfg req =
     (case assert_map (Arguments (Params req)) of
        None \<Rightarrow>
          \<lparr>calls =
             (if TelemetryService cfg \<noteq> None
              then [TrackToolInvocation (Name (Params req)) [] False] else []),
           outcome =
             Returned (Some (NewToolResultError (arguments_error (Arguments (Params req)))), None)\<rparr>
      | Some args \<Rightarrow>
          (let ex = executor args cfg in
             \<lparr>calls =
                Execute args #
                (if TelemetryService cfg \<noteq> None
                 then [TrackToolInvocation (Name (Params req))
                         (assert_string (map_index (after_Execute args ex) ''operation''))
                         (returned_error ex = None)]
                 else []),
              outcome =
                (case returned_error ex of
                   Some e \<Rightarrow> Returned (Some (NewToolResultError e), None)
                 | None \<Rightarrow> Returned (Some (NewToolResultText (returned_text ex)), None))\<rparr>))"

definition CreateToolHandlerWithName ::
  "'s CommandExecutor \<Rightarrow> 's ConfigData \<Rightarrow> string \<Rightarrow> CallToolRequest \<Rightarrow> handler_run" where
  "CreateToolHandlerWithName executor cfg injected req =
     (case assert_map (Arguments (Params req)) of
        None \<Rightarrow>
          \<lparr>calls =
             (if TelemetryService cfg \<noteq> None
              then [TrackToolInvocation (Name (Params req)) [] False] else []),
           outcome =
             Returned (Some (NewToolResultError (arguments_error (Arguments (Params req)))), None)\<rparr>
      | Some args0 \<Rightarrow>
          (case map_assign args0 ''_tool_name'' (GoString injected) of
             Panicked msg \<Rightarrow> \<lparr>calls = [], outcome = Panicked msg\<rparr>
           | Returned args \<Rightarrow>
               (let ex = executor args cfg in
                  \<lparr>calls =
                     Execute args #
                     (if TelemetryService cfg \<noteq> None
                      then [TrackToolInvocation injected
                              (assert_string (map_index (after_Execute args ex) ''operation''))
                              (returned_error ex = None)]
                      else []),
                   outcome =
                     (case returned_error ex of
                        Some e \<Rightarrow> Returned (Some (NewToolResultError e), None)
                      | None \<Rightarrow> Returned (Some (NewToolResultText (returned_text ex)), None))\<rparr>)))"

text \<open>The calls of a run that went to the telemetry service, and those that went to the executor.\<close>

fun telemetry_calls :: "call list \<Rightarrow> (string \<times> string \<times> bool) list" where
  "telemetry_calls [] = []"
| "telemetry_calls (Execute args # cs) = telemetry_calls cs"
| "telemetry_calls (TrackToolInvocation n op ok # cs) = (n, op, ok) # telemetry_calls cs"

fun executor_calls :: "call list \<Rightarrow> go_map list" where
  "executor_calls [] = []"
| "executor_calls (Execute args # cs) = args # executor_calls cs"
| "executor_calls (TrackToolInvocation n op ok # cs) = executor_calls cs"

subsection \<open>The test doubles of \<^verbatim>\<open>handler_test.go\<close>\<close>

text \<open>The mock executor reads neither argument and writes nothing.\<close>

definition mockExecutor :: "bool \<Rightarrow> string \<Rightarrow> 's CommandExecutor" where
  "mockExecutor shouldError result args cfg =
     \<lparr>returned_text = (if shouldError then [] else result),
      returned_error = (if shouldError then Some ''mock execution error'' else None),
      map_after = (case args of None \<Rightarrow> Map.empty | Some f \<Rightarrow> f)\<rparr>"

record invocation =
  toolName :: string
  operation :: string
  success :: bool

record mockTelemetryService =
  invocations :: "invocation list"

definition mock_TrackToolInvocation ::
  "string \<Rightarrow> string \<Rightarrow> bool \<Rightarrow> mockTelemetryService \<Rightarrow> mockTelemetryService" where
  "mock_TrackToolInvocation n op ok m =
     m\<lparr>invocations :=
          invocations m @ [\<lparr>toolName = n, operation = op, success = ok\<rparr>]\<rparr>"

text \<open>
  The state a telemetry service is in after a run: its \<^verbatim>\<open>TrackToolInvocation\<close> method
  applied for each call of the run, in order.
\<close>

fun deliver :: "(string \<Rightarrow> string \<Rightarrow> bool \<Rightarrow> 's \<Rightarrow> 's) \<Rightarrow> call list \<Rightarrow> 's \<Rightarrow> 's" where
  "deliver track [] s = s"
| "deliver track (Execute args # cs) s = deliver track cs s"
| "deliver track (TrackToolInvocation n op ok # cs) s = deliver track cs (track n op ok s)"

subsection \<open>A handler and the service it calls\<close>

text \<open>
  The handlers call \<^verbatim>\<open>cfg.TelemetryService.TrackToolInvocation\<close> inline and recover
  from nothing, so a panic of that method is the handler's. \<open>method\<close> is the
  \<^verbatim>\<open>TrackToolInvocation\<close> of the type that the interface value holds, acting on the
  value held. Each telemetry call of a run comes after the steps of the handler that
  can panic and before its return statement, so the caller of the handler gets the
  run's outcome unless a telemetry call panics.
\<close>

fun through_service ::
  "(string \<Rightarrow> string \<Rightarrow> bool \<Rightarrow> 's \<Rightarrow> 's go_result) \<Rightarrow> (string \<times> string \<times> bool) list \<Rightarrow> 's \<Rightarrow>
   'a go_result \<Rightarrow> 'a go_result" where
  "through_service method [] s out = out"
| "through_service method ((n, op, ok) # cs) s out =
     (case method n op ok s of
        Panicked msg \<Rightarrow> Panicked msg
      | Returned s' \<Rightarrow> through_service method cs s' out)"

definition handler_result ::
  "(string \<Rightarrow> string \<Rightarrow> bool \<Rightarrow> 's \<Rightarrow> 's go_result) \<Rightarrow> 's ConfigData \<Rightarrow> handler_run \<Rightarrow>
   (CallToolResult option \<times> string option) go_result" where
  "handler_result method cfg run =
     (case TelemetryService cfg of
        None \<Rightarrow> outcome run
      | Some s \<Rightarrow> through_service method (telemetry_calls (calls run)) s (outcome run))"

section \<open>Command-line flags\<close>

text \<open>
  \<^verbatim>\<open>ParseFlags\<close> registers its flags with \<^verbatim>\<open>pflag\<close> and calls \<^verbatim>\<open>flag.Parse()\<close>. The
  command line is modelled after that parse has succeeded: for each flag, the value
  given on the command line, or \<open>None\<close> when the flag is absent. A registered variable
  holds the given value, or else the flag's default.
\<close>

record flags =
  flag_transport :: "string option"
  flag_host :: "string option"
  flag_port :: "int option"
  flag_timeout :: "int option"
  flag_additional_tools :: "string option"
  flag_access_level :: "string option"
  flag_allow_namespaces :: "string option"
  flag_otlp_endpoint :: "string option"

definition flag_value :: "'a \<Rightarrow> 'a option \<Rightarrow> 'a" where
  "flag_value dflt given = (case given of None \<Rightarrow> dflt | Some v \<Rightarrow> v)"

definition no_flags :: flags where
  "no_flags =
     \<lparr>flag_transport = None, flag_host = None, flag_port = None, flag_timeout = None,
      flag_additional_tools = None, flag_access_level = None,
      flag_allow_namespaces = None, flag_otlp_endpoint = None\<rparr>"

subsection \<open>\<^verbatim>\<open>strings.Split\<close> and \<^verbatim>\<open>strings.TrimSpace\<close>\<close>

text \<open>\<^verbatim>\<open>strings.Split(s, sep)\<close> for a separator of one byte.\<close>

fun Split :: "string \<Rightarrow> char \<Rightarrow> string list" where
  "Split [] sep = [[]]"
| "Split (c # cs) sep =
     (if c = sep then [] # Split cs sep
      else (case Split cs sep of
              [] \<Rightarrow> [[c]]
            | w # ws \<Rightarrow> (c # w) # ws))"

text \<open>
  A Go string is a sequence of bytes, and \<^verbatim>\<open>strings.TrimSpace\<close> removes the leading and
  trailing code points that \<^verbatim>\<open>unicode.IsSpace\<close> accepts. These are their UTF-8
  encodings: tab, line feed, vertical tab, form feed, carriage return, space, U+0085,
  U+00A0, U+1680, U+2000 to U+200A, U+2028, U+2029, U+202F, U+205F and U+3000.
\<close>

definition space_encodings :: "string list" where
  "space_encodings =
     [[CHR 0x09], [CHR 0x0A], [CHR 0x0B], [CHR 0x0C], [CHR 0x0D], [CHR 0x20],
      [CHR 0xC2, CHR 0x85], [CHR 0xC2, CHR 0xA0],
      [CHR 0xE1, CHR 0x9A, CHR 0x80],
      [CHR 0xE2, CHR 0x80, CHR 0x80], [CHR 0xE2, CHR 0x80, CHR 0x81],
      [CHR 0xE2, CHR 0x80, CHR 0x82], [CHR 0xE2, CHR 0x80, CHR 0x83],
      [CHR 0xE2, CHR 0x80, CHR 0x84], [CHR 0xE2, CHR 0x80, CHR 0x85],
      [CHR 0xE2, CHR 0x80, CHR 0x86], [CHR 0xE2, CHR 0x80, CHR 0x87],
      [CHR 0xE2, CHR 0x80, CHR 0x88], [CHR 0xE2, CHR 0x80, CHR 0x89],
      [CHR 0xE2, CHR 0x80, CHR 0x8A],
      [CHR 0xE2, CHR 0x80, CHR 0xA8], [CHR 0xE2, CHR 0x80, CHR 0xA9],
      [CHR 0xE2, CHR 0x80, CHR 0xAF],
      [CHR 0xE2, CHR 0x81, CHR 0x9F],
      [CHR 0xE3, CHR 0x80, CHR 0x80]]"

text \<open>
  The number of bytes of the space that \<open>s\<close> starts with, \<open>0\<close> when it starts with
  none; \<open>encs\<close> lists the encodings to look for.
\<close>

fun leading_space :: "string list \<Rightarrow> string \<Rightarrow> nat" where
  "leading_space [] s = 0"
| "leading_space (e # es) s =
     (if e \<noteq> [] \<and> take (length e) s = e then length e else leading_space es s)"

lemma leading_space_le: "leading_space encs s \<le> length s"
proof (induction encs)
  case Nil
  show ?case by simp
next
  case (Cons e es)
  have "length e \<le> length s" if "take (length e) s = e"
  proof -
    have "length (take (length e) s) = length e" using that by simp
    then show ?thesis by simp
  qed
  with Cons show ?case by simp
qed

text \<open>Spaces are dropped from the front until the string starts with none.\<close>

function trim_leading :: "string list \<Rightarrow> string \<Rightarrow> string" where
  "trim_leading encs s =
     (if leading_space encs s = 0 then s
      else trim_leading encs (drop (leading_space encs s) s))"
  by pat_completeness auto
termination
proof (relation "measure (\<lambda>(encs, s). length s)")
  show "wf (measure (\<lambda>(encs, s). length s))" by simp
next
  fix encs :: "string list" and s :: string
  assume "leading_space encs s \<noteq> 0"
  moreover have "leading_space encs s \<le> length s" by (rule leading_space_le)
  ultimately show
    "((encs, drop (leading_space encs s) s), (encs, s)) \<in> measure (\<lambda>(encs, s). length s)"
    by simp
qed

definition TrimSpace :: "string \<Rightarrow> string" where
  "TrimSpace s =
     rev (trim_leading (map rev space_encodings) (rev (trim_leading space_encodings s)))"

subsection \<open>\<^verbatim>\<open>ParseFlags\<close>\<close>

text \<open>The \<^verbatim>\<open>switch\<close> on \<^verbatim>\<open>cfg.AccessLevel\<close>: the tier of a case, \<open>None\<close> for \<^verbatim>\<open>default\<close>.\<close>

definition access_level_case :: "string \<Rightarrow> AccessLevel option" where
  "access_level_case s =
     (if s = ''readonly'' then Some AccessLevelReadOnly
      else if s = ''readwrite'' then Some AccessLevelReadWrite
      else if s = ''admin'' then Some AccessLevelAdmin
      else None)"

definition invalid_access_level :: "string \<Rightarrow> string" where
  "invalid_access_level s =
     ''invalid access level '' @ [CHR 0x27] @ s @ [CHR 0x27] @
     ''. Valid values are: readonly, readwrite, admin''"

text \<open>
  The loop over the comma-separated tools: \<^verbatim>\<open>cfg.AdditionalTools[tool] = true\<close> for each
  entry that is not blank. The assignment panics when the map is nil.
\<close>

fun enable_tools ::
  "string list \<Rightarrow> (string \<Rightarrow> bool option) option \<Rightarrow> (string \<Rightarrow> bool option) option go_result" where
  "enable_tools [] tools = Returned tools"
| "enable_tools (t # ts) tools =
     (if TrimSpace t = [] then enable_tools ts tools
      else (case tools of
              None \<Rightarrow> Panicked ''assignment to entry in nil map''
            | Some f \<Rightarrow> enable_tools ts (Some (f(TrimSpace t \<mapsto> True)))))"

text \<open>
  \<^verbatim>\<open>ParseFlags\<close> returns its error (\<open>None\<close> for nil) and leaves the configuration
  updated in place; the result holds both. \<^verbatim>\<open>SecurityConfig.SetAllowedNamespaces\<close> is
  not among the source files and is the parameter \<open>setAllowed\<close>. Assigning through the
  nil \<^verbatim>\<open>cfg.SecurityConfig\<close> panics.
\<close>

definition ParseFlags ::
  "(string \<Rightarrow> SecurityConfig \<Rightarrow> SecurityConfig) \<Rightarrow> flags \<Rightarrow> 's ConfigData \<Rightarrow>
   (string option \<times> 's ConfigData) go_result" where
  "ParseFlags setAllowed fl cfg0 =
     (let cfg = cfg0
            \<lparr>Transport := flag_value ''stdio'' (flag_transport fl),
             Host := flag_value ''127.0.0.1'' (flag_host fl),
             Port := flag_value 8000 (flag_port fl),
             Timeout := flag_value 60 (flag_timeout fl),
             AccessLevel := flag_value ''readonly'' (flag_access_level fl),
             AllowNamespaces := flag_value [] (flag_allow_namespaces fl),
             OTLPEndpoint := flag_value [] (flag_otlp_endpoint fl)\<rparr>;
          additionalTools = flag_value [] (flag_additional_tools fl)
      in case access_level_case (AccessLevel cfg) of
           None \<Rightarrow> Returned (Some (invalid_access_level (AccessLevel cfg)), cfg)
         | Some level \<Rightarrow>
             (case SecurityConfig cfg of
                None \<Rightarrow> Panicked nil_dereference
              | Some sc \<Rightarrow>
                  (let sc1 = sc\<lparr>sec_AccessLevel := level\<rparr>;
                       sc2 = (if AllowNamespaces cfg \<noteq> []
                              then setAllowed (AllowNamespaces cfg) sc1 else sc1);
                       cfg1 = cfg\<lparr>SecurityConfig := Some sc2\<rparr>
                   in if additionalTools \<noteq> []
                      then (case enable_tools (Split additionalTools CHR '','') (AdditionalTools cfg1) of
                              Panicked msg \<Rightarrow> Panicked msg
                            | Returned tools \<Rightarrow> Returned (None, cfg1\<lparr>AdditionalTools := tools\<rparr>))
                      else Returned (None, cfg1))))"

section \<open>Telemetry service\<close>

text \<open>
  \<^verbatim>\<open>telemetry.Config\<close>, as far as the service reads it.

  Modelled from the spec: the methods \<^verbatim>\<open>HasOTLP\<close> and \<^verbatim>\<open>HasApplicationInsights\<close> of
  \<^verbatim>\<open>telemetry.Config\<close> are not among the source files; they follow the package's tests:
  an OTLP endpoint is there when it is not empty, and Application Insights is on when
  telemetry is enabled and the instrumentation key is not empty.
\<close>

record TelemetryConfig =
  ServiceName :: string
  ServiceVersion :: string
  DeviceID :: string
  Enabled :: bool
  otlp_endpoint :: string
  instrumentationKey :: string

definition HasOTLP :: "TelemetryConfig \<Rightarrow> bool" where
  "HasOTLP c = (otlp_endpoint c \<noteq> [])"

definition HasApplicationInsights :: "TelemetryConfig \<Rightarrow> bool" where
  "HasApplicationInsights c = (Enabled c \<and> instrumentationKey c \<noteq> [])"

text \<open>
  \<^verbatim>\<open>telemetry.Service\<close>. The fields \<open>tracer\<close> and \<open>appInsightsClient\<close> say whether the Go
  field is set (not nil). What the service has sent out is part of its state: the spans
  started on the tracer, each with its name and attributes, and the traces given to the
  Application Insights client, each with its name and properties.
\<close>

datatype attribute = String_attr string string | Bool_attr string bool

record Service =
  config :: TelemetryConfig
  tracer :: bool
  appInsightsClient :: bool
  isInitialized :: bool
  spans :: "(string \<times> attribute list) list"
  traces :: "(string \<times> (string \<times> string) list) list"

definition NewService :: "TelemetryConfig \<Rightarrow> Service" where
  "NewService c =
     \<lparr>config = c, tracer = False, appInsightsClient = False, isInitialized = False,
      spans = [], traces = []\<rparr>"

text \<open>\<^verbatim>\<open>fmt.Sprintf("%v", b)\<close> for a boolean.\<close>

definition format_bool :: "bool \<Rightarrow> string" where
  "format_bool b = (if b then ''true'' else ''false'')"

text \<open>
  \<^verbatim>\<open>func (s *Service) TrackToolInvocation\<close>. The receiver is a pointer, \<open>None\<close> the nil
  one; the first statement reads \<^verbatim>\<open>s.isInitialized\<close> through it.
\<close>

definition Service_TrackToolInvocation ::
  "string \<Rightarrow> string \<Rightarrow> bool \<Rightarrow> Service option \<Rightarrow> Service option go_result" where
  "Service_TrackToolInvocation name op ok ptr =
     (case ptr of
        None \<Rightarrow> Panicked nil_dereference
      | Some s \<Rightarrow>
          Returned (Some
            (if \<not> isInitialized s then s
             else
               (let s1 =
                      (if HasOTLP (config s) \<and> tracer s
                       then s\<lparr>spans := spans s @
                               [(''ToolInvocation'',
                                 [String_attr ''tool.name'' name,
                                  String_attr ''tool.operation'' op,
                                  Bool_attr ''tool.success'' ok])]\<rparr>
                       else s)
                in if HasApplicationInsights (config s1) \<and> appInsightsClient s1
                   then s1\<lparr>traces := traces s1 @
                             [(''ToolInvocation'',
                               [(''tool.name'', name),
                                (''tool.operation'', op),
                                (''tool.success'', format_bool ok)])]\<rparr>
                   else s1))))"

section \<open>Access policy and namespace scope\<close>

text \<open>The error kinds of the spec's taxonomy that these two checks produce.\<close>

datatype ErrorKind = ToolNotEnabled | AccessDenied | NamespaceNotAllowed

text \<open>The tiers in their order: read-only below read-write below admin.\<close>

fun tier :: "AccessLevel \<Rightarrow> nat" where
  "tier AccessLevelReadOnly = 0"
| "tier AccessLevelReadWrite = 1"
| "tier AccessLevelAdmin = 2"

instantiation AccessLevel :: linorder
begin

definition less_eq_AccessLevel :: "AccessLevel \<Rightarrow> AccessLevel \<Rightarrow> bool" where
  "less_eq_AccessLevel a b = (tier a \<le> tier b)"

definition less_AccessLevel :: "AccessLevel \<Rightarrow> AccessLevel \<Rightarrow> bool" where
  "less_AccessLevel a b = (tier a < tier b)"

instance
proof
  fix x y z :: AccessLevel
  show "(x < y) = (x \<le> y \<and> \<not> y \<le> x)"
    by (auto simp: less_eq_AccessLevel_def less_AccessLevel_def)
  show "x \<le> x"
    by (simp add: less_eq_AccessLevel_def)
  show "x \<le> y \<Longrightarrow> y \<le> z \<Longrightarrow> x \<le> z"
    by (simp add: less_eq_AccessLevel_def)
  show "x \<le> y \<Longrightarrow> y \<le> x \<Longrightarrow> x = y"
    by (cases x; cases y) (simp_all add: less_eq_AccessLevel_def)
  show "x \<le> y \<or> y \<le> x"
    by (auto simp: less_eq_AccessLevel_def)
qed

end

text \<open>
  Modelled from the spec: the access check is not among the source files. The spec's
  contract is \<^verbatim>\<open>Check(requested, required) -> ok | fails with AccessDenied\<close>, a pure
  function of the two levels, and its error table gives the trigger of the failure:
  the requested level is below the required one.
\<close>

definition Check :: "AccessLevel \<Rightarrow> AccessLevel \<Rightarrow> ErrorKind + unit" where
  "Check requested required =
     (if tier requested < tier required then Inl AccessDenied else Inr ())"

text \<open>
  Modelled from the spec: the namespace scope guard is not among the source files. The
  spec's contract is \<^verbatim>\<open>Check(requestedNamespace, allowed) -> ok | fails with
  NamespaceNotAllowed\<close>: an empty set allows every namespace, named or not; a named
  namespace outside a set that is not empty is refused. For a request that names no
  namespace under a set that is not empty the spec leaves two policies open, and the
  guard takes the one chosen as a parameter.
\<close>

datatype unnamed_policy = RejectAmbiguous | DefaultToSole

definition NamespaceCheck ::
  "unnamed_policy \<Rightarrow> string option \<Rightarrow> string set \<Rightarrow> ErrorKind + unit" where
  "NamespaceCheck policy requestedNamespace allowed =
     (if allowed = {} then Inr ()
      else (case requestedNamespace of
              Some ns \<Rightarrow> if ns \<in> allowed then Inr () else Inl NamespaceNotAllowed
            | None \<Rightarrow>
                (case policy of
                   RejectAmbiguous \<Rightarrow> Inl NamespaceNotAllowed
                 | DefaultToSole \<Rightarrow>
                     if card allowed = 1 then Inr () else Inl NamespaceNotAllowed)))"

section \<open>Inputs of the tests\<close>

text \<open>
  The tests of the handlers start from the zero value \<^verbatim>\<open>&config.ConfigData{}\<close> and set
  its telemetry service to a fresh mock.
\<close>

definition test_cfg :: "mockTelemetryService ConfigData" where
  "test_cfg =
     \<lparr>AdditionalTools = None, Timeout = 0, SecurityConfig = None, Transport = [],
      Host = [], Port = 0, AccessLevel = [], AllowNamespaces = [], OTLPEndpoint = [],
      TelemetryService = Some \<lparr>invocations = []\<rparr>\<rparr>"

text \<open>The request of \<^verbatim>\<open>TestCreateToolHandlerWithNameSuccess\<close>.\<close>

definition apply_arguments :: "string \<Rightarrow> go_value option" where
  "apply_arguments =
     [''operation'' \<mapsto> GoString ''apply'', ''arg1'' \<mapsto> GoString ''value1'']"

definition named_request :: CallToolRequest where
  "named_request =
     \<lparr>Params = \<lparr>Name = ''request-tool-name'', Arguments = GoMap (Some apply_arguments)\<rparr>\<rparr>"



text \<open>The request of \<^verbatim>\<open>TestCreateToolHandlerInvalidArguments\<close>.\<close>

definition invalid_request :: CallToolRequest where
  "invalid_request =
     \<lparr>Params = \<lparr>Name = ''test-tool'', Arguments = GoString ''invalid arguments''\<rparr>\<rparr>"

text \<open>
  A request whose arguments are the nil map: \<^verbatim>\<open>var m map[string]interface{}\<close> stored in
  \<^verbatim>\<open>Params.Arguments\<close>.
\<close>

definition nil_map_request :: CallToolRequest where
  "nil_map_request =
     \<lparr>Params = \<lparr>Name = ''request-tool-name'', Arguments = GoMap None\<rparr>\<rparr>"

text \<open>The configuration of \<^verbatim>\<open>TestServiceTrackToolInvocationNotInitialized\<close>.\<close>

definition test_telemetry_config :: TelemetryConfig where
  "test_telemetry_config =
     \<lparr>ServiceName = ''test-service'', ServiceVersion = ''1.0.0'', DeviceID = [],
      Enabled = True, otlp_endpoint = [], instrumentationKey = []\<rparr>"

text \<open>
  Modelled from the spec: \<^verbatim>\<open>SecurityConfig.SetAllowedNamespaces\<close> is not among the source
  files. The spec gives the allowed namespaces as a comma-delimited list whose empty
  value means all. It serves as an instance of the parameter of \<open>ParseFlags\<close>.
\<close>

definition SetAllowedNamespaces :: "string \<Rightarrow> SecurityConfig \<Rightarrow> SecurityConfig" where
  "SetAllowedNamespaces namespaces sc =
     sc\<lparr>allowedNamespaces := (if namespaces = [] then {} else set (Split namespaces CHR '',''))\<rparr>"

section \<open>Properties of the handlers\<close>

subsection \<open>Returning and panicking\<close>

lemma CreateToolHandler_returns:
  "\<exists>r. outcome (CreateToolHandler executor cfg req) = Returned (Some r, None)"
  by (simp add: CreateToolHandler_def Let_def split: option.splits)

lemma CreateToolHandlerWithName_panics_iff:
  "(\<exists>msg. outcome (CreateToolHandlerWithName executor cfg injected req) = Panicked msg) =
   (Arguments (Params req) = GoMap None)"
  by (cases "Arguments (Params req)")
    (auto simp: CreateToolHandlerWithName_def map_assign_def Let_def split: option.splits)

lemma CreateToolHandlerWithName_returns:
  assumes "Arguments (Params req) \<noteq> GoMap None"
  shows "\<exists>r. outcome (CreateToolHandlerWithName executor cfg injected req) = Returned (Some r, None)"
  using assms
  by (cases "Arguments (Params req)")
    (auto simp: CreateToolHandlerWithName_def map_assign_def Let_def split: option.splits)

lemma CreateToolHandler_error_result:
  assumes "assert_map (Arguments (Params req)) = Some args"
    and "returned_error (executor args cfg) = Some e"
  shows "outcome (CreateToolHandler executor cfg req) = Returned (Some (NewToolResultError e), None)"
  using assms by (simp add: CreateToolHandler_def Let_def)

subsection \<open>Telemetry of a run that returns\<close>

lemma CreateToolHandler_tracks_once:
  assumes "TelemetryService cfg \<noteq> None"
  shows "map (\<lambda>(n, op, ok). ok) (telemetry_calls (calls (CreateToolHandler executor cfg req))) =
           [case assert_map (Arguments (Params req)) of
              None \<Rightarrow> False
            | Some args \<Rightarrow> returned_error (executor args cfg) = None]"
  using assms
  by (simp add: CreateToolHandler_def Let_def split: option.splits)

lemma CreateToolHandlerWithName_tracks_once:
  assumes "TelemetryService cfg \<noteq> None"
    and "Arguments (Params req) \<noteq> GoMap None"
  shows "map (\<lambda>(n, op, ok). ok)
           (telemetry_calls (calls (CreateToolHandlerWithName executor cfg injected req))) =
           [case assert_map (Arguments (Params req)) of
              None \<Rightarrow> False
            | Some None \<Rightarrow> False
            | Some (Some m) \<Rightarrow>
                returned_error
                  (executor (Some (m(''_tool_name'' \<mapsto> GoString injected))) cfg) = None]"
  using assms
  by (cases "Arguments (Params req)")
    (auto simp: CreateToolHandlerWithName_def map_assign_def Let_def split: option.splits)

subsection \<open>The nil map\<close>

text \<open>
  Claim C1: with a telemetry service in the configuration, every run of a handler made
  by \<^verbatim>\<open>CreateToolHandler\<close> or \<^verbatim>\<open>CreateToolHandlerWithName\<close> calls
  \<^verbatim>\<open>TrackToolInvocation\<close> exactly once, and the success flag is true exactly when the
  executor returned no error. The code does not do so on the request whose arguments
  are the nil map: \<^verbatim>\<open>CreateToolHandlerWithName\<close> makes no call at all there, and the
  test's mock ends with no invocation recorded. On every run that returns, the two
  lemmas above give the one call and its flag.
\<close>

theorem nil_map_run_tracks_nothing:
  "calls (CreateToolHandlerWithName (mockExecutor False ''success result'') test_cfg
            ''named-tool'' nil_map_request) = [] \<and>
   invocations
     (deliver mock_TrackToolInvocation
        (calls (CreateToolHandlerWithName (mockExecutor False ''success result'') test_cfg
                  ''named-tool'' nil_map_request))
        \<lparr>invocations = []\<rparr>) = []"
  by (simp add: CreateToolHandlerWithName_def nil_map_request_def map_assign_def)

text \<open>
  Claim C2: for every request the handlers return a nil error and a result that is not
  nil, an error of the executor becoming an error result. The code does not do so on
  the request whose arguments are the nil map: the handler made by
  \<^verbatim>\<open>CreateToolHandlerWithName\<close> gives back no result there, whatever the executor would
  have returned. Everywhere else the handlers return such a pair
  (\<open>CreateToolHandler_returns\<close>, \<open>CreateToolHandlerWithName_returns\<close>).
\<close>

theorem nil_map_run_gives_no_result:
  "\<not> (\<exists>r err. outcome (CreateToolHandlerWithName (mockExecutor shouldError ''success result'')
                         test_cfg ''named-tool'' nil_map_request) = Returned (r, err))"
  by (simp add: CreateToolHandlerWithName_def nil_map_request_def map_assign_def)

text \<open>
  Claim C3: the handlers never panic, whatever the arguments of the request; the write
  of \<^verbatim>\<open>_tool_name\<close> is safe for every arguments value that passes the type assertion.
  The code does not do so: the nil map passes the assertion, and the handler made by
  \<^verbatim>\<open>CreateToolHandlerWithName\<close> then panics on the write, while the one made by
  \<^verbatim>\<open>CreateToolHandler\<close>, which only reads the map, returns the executor's text.
\<close>

theorem nil_map_write_panics:
  "assert_map (Arguments (Params nil_map_request)) = Some None \<and>
   outcome (CreateToolHandlerWithName (mockExecutor False ''success result'') test_cfg
              ''named-tool'' nil_map_request) = Panicked ''assignment to entry in nil map'' \<and>
   outcome (CreateToolHandler (mockExecutor False ''success result'') test_cfg
              nil_map_request) = Returned (Some (NewToolResultText ''success result''), None)"
  by (simp add: CreateToolHandlerWithName_def CreateToolHandler_def nil_map_request_def
      map_assign_def mockExecutor_def Let_def)

subsection \<open>The injected tool name\<close>

text \<open>
  On an allocated arguments map the handler made by \<^verbatim>\<open>CreateToolHandlerWithName\<close>
  calls the executor once, on the map extended with \<^verbatim>\<open>_tool_name\<close> bound to the
  injected name, and the telemetry call carries the injected name, whatever
  \<^verbatim>\<open>Params.Name\<close> is. The operation is read from the map as the executor left it.
\<close>

lemma CreateToolHandlerWithName_injects:
  assumes "Arguments (Params req) = GoMap (Some m)"
  shows "executor_calls (calls (CreateToolHandlerWithName executor cfg injected req)) =
           [Some (m(''_tool_name'' \<mapsto> GoString injected))] \<and>
         telemetry_calls (calls (CreateToolHandlerWithName executor cfg injected req)) =
           (if TelemetryService cfg = None then []
            else [(injected,
                   assert_string
                     (map_index
                        (Some (map_after
                           (executor (Some (m(''_tool_name'' \<mapsto> GoString injected))) cfg)))
                        ''operation''),
                   returned_error
                     (executor (Some (m(''_tool_name'' \<mapsto> GoString injected))) cfg) = None)])"
  using assms
  by (simp add: CreateToolHandlerWithName_def map_assign_def after_Execute_def Let_def)

lemma named_request_run:
  "executor_calls
     (calls (CreateToolHandlerWithName (mockExecutor False ''success result'') test_cfg
               ''named-tool'' named_request)) =
     [Some (apply_arguments(''_tool_name'' \<mapsto> GoString ''named-tool''))] \<and>
   telemetry_calls
     (calls (CreateToolHandlerWithName (mockExecutor False ''success result'') test_cfg
               ''named-tool'' named_request)) =
     [(''named-tool'', ''apply'', True)]"
  using CreateToolHandlerWithName_injects
    [of named_request apply_arguments "mockExecutor False ''success result''" test_cfg
      "''named-tool''"]
  by (simp add: named_request_def apply_arguments_def test_cfg_def mockExecutor_def
      map_index_def)

text \<open>
  Claim C9: for every request whose arguments are a valid map, the handler made by
  \<^verbatim>\<open>CreateToolHandlerWithName\<close> hands the executor the arguments map extended with
  \<^verbatim>\<open>_tool_name\<close> bound to the injected name, and the telemetry record carries the
  injected name. The code does not do so on the nil map, which passes the handler's
  only validation: the executor is never called there and no telemetry call is made.
  On an allocated map the claim holds (\<open>CreateToolHandlerWithName_injects\<close>).
\<close>

theorem nil_map_run_reaches_no_one:
  "assert_map (Arguments (Params nil_map_request)) \<noteq> None \<and>
   TelemetryService test_cfg \<noteq> None \<and>
   executor_calls
     (calls (CreateToolHandlerWithName (mockExecutor False ''success result'') test_cfg
               ''named-tool'' nil_map_request)) = [] \<and>
   telemetry_calls
     (calls (CreateToolHandlerWithName (mockExecutor False ''success result'') test_cfg
               ''named-tool'' nil_map_request)) = []"
  by (simp add: CreateToolHandlerWithName_def nil_map_request_def map_assign_def test_cfg_def)

subsection \<open>Arguments that are not a map\<close>

text \<open>
  Claim C10: when the arguments of the request are not a \<^verbatim>\<open>map[string]interface{}\<close>,
  both handlers return an error result, never call the executor, and the telemetry
  call, made when a service is there, carries the empty operation and \<open>False\<close>.
\<close>

theorem invalid_arguments_rejected:
  assumes "\<forall>m. Arguments (Params req) \<noteq> GoMap m"
  shows "outcome (CreateToolHandler executor cfg req) =
           Returned (Some (NewToolResultError (arguments_error (Arguments (Params req)))), None) \<and>
         outcome (CreateToolHandlerWithName executor cfg injected req) =
           Returned (Some (NewToolResultError (arguments_error (Arguments (Params req)))), None) \<and>
         IsError (NewToolResultError (arguments_error (Arguments (Params req)))) \<and>
         executor_calls (calls (CreateToolHandler executor cfg req)) = [] \<and>
         executor_calls (calls (CreateToolHandlerWithName executor cfg injected req)) = [] \<and>
         telemetry_calls (calls (CreateToolHandler executor cfg req)) =
           (if TelemetryService cfg = None then [] else [(Name (Params req), [], False)]) \<and>
         telemetry_calls (calls (CreateToolHandlerWithName executor cfg injected req)) =
           (if TelemetryService cfg = None then [] else [(Name (Params req), [], False)])"
proof -
  from assms have "assert_map (Arguments (Params req)) = None"
    by (cases "Arguments (Params req)") simp_all
  then show ?thesis
    by (simp add: CreateToolHandler_def CreateToolHandlerWithName_def NewToolResultError_def)
qed

theorem invalid_arguments_witness:
  "(\<forall>m. Arguments (Params invalid_request) \<noteq> GoMap m) \<and>
   outcome (CreateToolHandler (mockExecutor False ''success result'') test_cfg invalid_request) =
     Returned
       (Some \<lparr>Content = [''arguments must be a map[string]interface{}, got string''],
              IsError = True\<rparr>, None) \<and>
   executor_calls
     (calls (CreateToolHandler (mockExecutor False ''success result'') test_cfg
               invalid_request)) = [] \<and>
   telemetry_calls
     (calls (CreateToolHandlerWithName (mockExecutor False ''success result'') test_cfg
               ''named-tool'' invalid_request)) = [(''test-tool'', [], False)]"
  using invalid_arguments_rejected
    [of invalid_request "mockExecutor False ''success result''" test_cfg "''named-tool''"]
  by (simp add: invalid_request_def test_cfg_def NewToolResultError_def arguments_error_def)

subsection \<open>Telemetry and the result\<close>

text \<open>
  The steps of a handler never read the telemetry service beyond the test for nil: for
  an executor that answers alike with and without the service in the configuration,
  the outcome of the run is the same.
\<close>

lemma outcome_without_service:
  assumes "\<forall>args. executor args (cfg\<lparr>TelemetryService := None\<rparr>) = executor args cfg"
  shows "outcome (CreateToolHandler executor (cfg\<lparr>TelemetryService := None\<rparr>) req) =
           outcome (CreateToolHandler executor cfg req) \<and>
         outcome (CreateToolHandlerWithName executor (cfg\<lparr>TelemetryService := None\<rparr>) injected req) =
           outcome (CreateToolHandlerWithName executor cfg injected req)"
  using assms
  by (simp add: CreateToolHandler_def CreateToolHandlerWithName_def Let_def
      split: option.splits go_result.splits)

text \<open>A service whose method returns on every call leaves the caller the run's outcome.\<close>

lemma through_returning_service:
  assumes "\<forall>n op ok s. \<exists>s'. method n op ok s = Returned s'"
  shows "through_service method cs s out = out"
proof (induction cs arbitrary: s)
  case Nil
  show ?case by simp
next
  case (Cons c cs)
  obtain n op ok where c: "c = (n, op, ok)"
    by (cases c) auto
  from assms obtain s' where "method n op ok s = Returned s'"
    by blast
  with Cons c show ?case by simp
qed

lemma handler_result_returning_service:
  assumes "\<forall>n op ok s. \<exists>s'. method n op ok s = Returned s'"
  shows "handler_result method cfg run = outcome run"
  by (simp add: handler_result_def through_returning_service [OF assms] split: option.splits)

text \<open>
  \<^verbatim>\<open>TrackToolInvocation\<close> on an allocated \<^verbatim>\<open>telemetry.Service\<close> returns, and when the
  service is not initialized it returns with the service as it was, nothing sent.
\<close>

lemma Service_TrackToolInvocation_allocated:
  "\<exists>s'. Service_TrackToolInvocation name op ok (Some s) = Returned (Some s')"
  by (simp add: Service_TrackToolInvocation_def)

lemma Service_TrackToolInvocation_uninitialized:
  assumes "\<not> isInitialized s"
  shows "Service_TrackToolInvocation name op ok (Some s) = Returned (Some s)"
  using assms by (simp add: Service_TrackToolInvocation_def)

text \<open>The calls of \<^verbatim>\<open>TestServiceTrackToolInvocationNotInitialized\<close>, on a fresh service.\<close>

lemma new_service_untouched:
  "Service_TrackToolInvocation ''kubectl'' ''get'' True (Some (NewService test_telemetry_config)) =
     Returned (Some (NewService test_telemetry_config))"
  by (simp add: Service_TrackToolInvocation_uninitialized NewService_def)


section \<open>Properties of the configuration\<close>

lemma enable_tools_returns: "\<exists>f'. enable_tools ts (Some f) = Returned (Some f')"
  by (induction ts arbitrary: f) auto

text \<open>
  Claim C8: a fresh configuration carries the documented defaults: a timeout of 60
  seconds, the access level \<^verbatim>\<open>readonly\<close>, the transport \<^verbatim>\<open>stdio\<close>, port 8000, an
  \<^verbatim>\<open>AdditionalTools\<close> map that is allocated and empty, and a security configuration
  that is not nil.
\<close>

theorem NewConfig_defaults:
  "Timeout NewConfig = 60 \<and>
   AccessLevel NewConfig = ''readonly'' \<and>
   Transport NewConfig = ''stdio'' \<and>
   Port NewConfig = 8000 \<and>
   AdditionalTools NewConfig = Some Map.empty \<and>
   SecurityConfig NewConfig \<noteq> None"
  by (simp add: NewConfig_def NewSecurityConfig_def)

text \<open>
  Claim C7: \<^verbatim>\<open>ParseFlags\<close> returns an error exactly when the access-level string is
  none of \<^verbatim>\<open>readonly\<close>, \<^verbatim>\<open>readwrite\<close> and \<^verbatim>\<open>admin\<close>, compared as they are written; on
  each of the three it sets the tier of the security configuration to match. The
  string is the value of the flag, \<^verbatim>\<open>readonly\<close> when the flag is absent. The
  configuration is one whose security configuration and tools map are allocated, as
  \<^verbatim>\<open>NewConfig\<close> makes it, and \<^verbatim>\<open>SetAllowedNamespaces\<close> is any function that leaves the
  tier alone.
\<close>

theorem ParseFlags_access_level:
  assumes "SecurityConfig cfg = Some sc"
    and "AdditionalTools cfg = Some tools"
    and "\<forall>ns s. sec_AccessLevel (setAllowed ns s) = sec_AccessLevel s"
  shows "\<exists>err cfg'. ParseFlags setAllowed fl cfg = Returned (err, cfg') \<and>
           (err \<noteq> None) =
             (flag_value ''readonly'' (flag_access_level fl) \<notin>
                {''readonly'', ''readwrite'', ''admin''}) \<and>
           (flag_value ''readonly'' (flag_access_level fl) = ''readonly'' \<longrightarrow>
              map_option sec_AccessLevel (SecurityConfig cfg') = Some AccessLevelReadOnly) \<and>
           (flag_value ''readonly'' (flag_access_level fl) = ''readwrite'' \<longrightarrow>
              map_option sec_AccessLevel (SecurityConfig cfg') = Some AccessLevelReadWrite) \<and>
           (flag_value ''readonly'' (flag_access_level fl) = ''admin'' \<longrightarrow>
              map_option sec_AccessLevel (SecurityConfig cfg') = Some AccessLevelAdmin)"
proof (cases "access_level_case (flag_value ''readonly'' (flag_access_level fl))")
  case None
  then have "flag_value ''readonly'' (flag_access_level fl) \<notin>
      {''readonly'', ''readwrite'', ''admin''}"
    by (auto simp: access_level_case_def split: if_splits)
  with None show ?thesis
    by (simp add: ParseFlags_def Let_def)
next
  case (Some level)
  obtain f' where f':
    "enable_tools (Split (flag_value [] (flag_additional_tools fl)) CHR '','') (Some tools) =
       Returned (Some f')"
    using enable_tools_returns by blast
  from Some have valid:
    "flag_value ''readonly'' (flag_access_level fl) \<in> {''readonly'', ''readwrite'', ''admin''}"
    by (auto simp: access_level_case_def split: if_splits)
  from Some have
    "flag_value ''readonly'' (flag_access_level fl) = ''readonly'' \<longrightarrow>
       level = AccessLevelReadOnly"
    and "flag_value ''readonly'' (flag_access_level fl) = ''readwrite'' \<longrightarrow>
       level = AccessLevelReadWrite"
    and "flag_value ''readonly'' (flag_access_level fl) = ''admin'' \<longrightarrow>
       level = AccessLevelAdmin"
    by (auto simp: access_level_case_def split: if_splits)
  with Some assms f' valid show ?thesis
    by (simp add: ParseFlags_def Let_def)
qed

theorem ParseFlags_access_level_witness:
  "SecurityConfig (NewConfig :: Service ConfigData) =
     Some \<lparr>sec_AccessLevel = AccessLevelReadOnly, allowedNamespaces = {}\<rparr> \<and>
   AdditionalTools (NewConfig :: Service ConfigData) = Some Map.empty \<and>
   (\<forall>ns s. sec_AccessLevel (SetAllowedNamespaces ns s) = sec_AccessLevel s) \<and>
   (\<exists>cfg'. ParseFlags SetAllowedNamespaces (no_flags\<lparr>flag_access_level := Some ''admin''\<rparr>)
             (NewConfig :: Service ConfigData) = Returned (None, cfg') \<and>
           map_option sec_AccessLevel (SecurityConfig cfg') = Some AccessLevelAdmin) \<and>
   (\<exists>e cfg'. ParseFlags SetAllowedNamespaces (no_flags\<lparr>flag_access_level := Some ''READONLY''\<rparr>)
             (NewConfig :: Service ConfigData) = Returned (Some e, cfg'))"
  using ParseFlags_access_level
    [of "NewConfig :: Service ConfigData"
      "\<lparr>sec_AccessLevel = AccessLevelReadOnly, allowedNamespaces = {}\<rparr>" Map.empty
      SetAllowedNamespaces "no_flags\<lparr>flag_access_level := Some ''admin''\<rparr>"]
    ParseFlags_access_level
    [of "NewConfig :: Service ConfigData"
      "\<lparr>sec_AccessLevel = AccessLevelReadOnly, allowedNamespaces = {}\<rparr>" Map.empty
      SetAllowedNamespaces "no_flags\<lparr>flag_access_level := Some ''READONLY''\<rparr>"]
  by (auto simp: NewConfig_def NewSecurityConfig_def SetAllowedNamespaces_def no_flags_def
      flag_value_def)

section \<open>Properties of the access policy and the namespace scope\<close>

text \<open>
  Claim C4: for every pair of a requested and a required level, the access check permits
  exactly when the requested level is at least the required one in the order read-only
  below read-write below admin, and fails with \<open>AccessDenied\<close> otherwise. The last
  conjunct lists the pairs that are permitted.
\<close>

theorem Check_permits_iff:
  "(Check requested required = Inr ()) = (required \<le> requested) \<and>
   (Check requested required = Inl AccessDenied) = (requested < required) \<and>
   AccessLevelReadOnly < AccessLevelReadWrite \<and>
   AccessLevelReadWrite < AccessLevelAdmin \<and>
   {(a, b). Check a b = Inr ()} =
     {(AccessLevelReadOnly, AccessLevelReadOnly),
      (AccessLevelReadWrite, AccessLevelReadOnly),
      (AccessLevelReadWrite, AccessLevelReadWrite),
      (AccessLevelAdmin, AccessLevelReadOnly),
      (AccessLevelAdmin, AccessLevelReadWrite),
      (AccessLevelAdmin, AccessLevelAdmin)}"
proof -
  have order: "(Check requested required = Inr ()) = (required \<le> requested)"
    "(Check requested required = Inl AccessDenied) = (requested < required)"
    "AccessLevelReadOnly < AccessLevelReadWrite" "AccessLevelReadWrite < AccessLevelAdmin"
    by (auto simp: Check_def less_eq_AccessLevel_def less_AccessLevel_def)
  have pairs: "(Check a b = Inr ()) =
      ((a, b) \<in> {(AccessLevelReadOnly, AccessLevelReadOnly),
        (AccessLevelReadWrite, AccessLevelReadOnly),
        (AccessLevelReadWrite, AccessLevelReadWrite),
        (AccessLevelAdmin, AccessLevelReadOnly),
        (AccessLevelAdmin, AccessLevelReadWrite),
        (AccessLevelAdmin, AccessLevelAdmin)})" for a b
    by (cases a; cases b) (simp_all add: Check_def)
  have "{(a, b). Check a b = Inr ()} =
      {(AccessLevelReadOnly, AccessLevelReadOnly),
       (AccessLevelReadWrite, AccessLevelReadOnly),
       (AccessLevelReadWrite, AccessLevelReadWrite),
       (AccessLevelAdmin, AccessLevelReadOnly),
       (AccessLevelAdmin, AccessLevelReadWrite),
       (AccessLevelAdmin, AccessLevelAdmin)}"
    unfolding set_eq_iff using pairs by simp
  with order show ?thesis by simp
qed

text \<open>
  Claim C5: under an empty set of allowed namespaces the namespace scope guard rejects
  nothing, whether the request names a namespace or not. In \<^verbatim>\<open>ParseFlags\<close>,
  \<^verbatim>\<open>SetAllowedNamespaces\<close> is called only when the value of the allow-namespaces flag
  is not empty: with an empty value the outcome is the same whatever that function is,
  the namespace set of the security configuration stays as it was, and a
  configuration that started from \<^verbatim>\<open>NewSecurityConfig\<close> stays unrestricted.
\<close>

theorem empty_allow_list_is_unrestricted:
  assumes "flag_value [] (flag_allow_namespaces fl) = []"
    and "ParseFlags setAllowed fl cfg = Returned (err, cfg')"
  shows "NamespaceCheck policy ns {} = Inr () \<and>
         ParseFlags setAllowed' fl cfg = Returned (err, cfg') \<and>
         map_option allowedNamespaces (SecurityConfig cfg') =
           map_option allowedNamespaces (SecurityConfig cfg) \<and>
         (SecurityConfig cfg = NewSecurityConfig \<longrightarrow>
            (\<exists>sc'. SecurityConfig cfg' = Some sc' \<and>
                   NamespaceCheck policy ns (allowedNamespaces sc') = Inr ()))"
proof -
  have guard: "NamespaceCheck policy ns {} = Inr ()"
    by (simp add: NamespaceCheck_def)
  have same: "ParseFlags setAllowed' fl cfg = ParseFlags setAllowed fl cfg"
    using assms(1) by (simp add: ParseFlags_def Let_def split: option.splits)
  have kept: "map_option allowedNamespaces (SecurityConfig cfg') =
      map_option allowedNamespaces (SecurityConfig cfg)"
    using assms
    by (auto simp: ParseFlags_def Let_def split: option.splits go_result.splits if_splits)
  have "\<exists>sc'. SecurityConfig cfg' = Some sc' \<and>
      NamespaceCheck policy ns (allowedNamespaces sc') = Inr ()"
    if "SecurityConfig cfg = NewSecurityConfig"
  proof -
    from that kept have "map_option allowedNamespaces (SecurityConfig cfg') = Some {}"
      by (simp add: NewSecurityConfig_def)
    then obtain sc' where "SecurityConfig cfg' = Some sc'" and "allowedNamespaces sc' = {}"
      by (cases "SecurityConfig cfg'") auto
    with guard show ?thesis by simp
  qed
  with guard same kept assms(2) show ?thesis by simp
qed

theorem empty_allow_list_witness:
  "flag_value [] (flag_allow_namespaces no_flags) = [] \<and>
   ParseFlags SetAllowedNamespaces no_flags (NewConfig :: Service ConfigData) =
     Returned (None, NewConfig\<lparr>Host := ''127.0.0.1''\<rparr>) \<and>
   NamespaceCheck RejectAmbiguous (Some ''anything'') {} = Inr () \<and>
   NamespaceCheck DefaultToSole None {} = Inr () \<and>
   ParseFlags (\<lambda>ns sc. sc\<lparr>allowedNamespaces := {''prod''}\<rparr>) no_flags
     (NewConfig :: Service ConfigData) = Returned (None, NewConfig\<lparr>Host := ''127.0.0.1''\<rparr>) \<and>
   map_option allowedNamespaces
     (SecurityConfig (NewConfig\<lparr>Host := ''127.0.0.1''\<rparr> :: Service ConfigData)) = Some {}"
proof -
  have flag: "flag_value [] (flag_allow_namespaces no_flags) = []"
    by (simp add: no_flags_def flag_value_def)
  have run: "ParseFlags SetAllowedNamespaces no_flags (NewConfig :: Service ConfigData) =
      Returned (None, NewConfig\<lparr>Host := ''127.0.0.1''\<rparr>)"
    by (simp add: ParseFlags_def Let_def no_flags_def flag_value_def NewConfig_def
        NewSecurityConfig_def access_level_case_def)
  from empty_allow_list_is_unrestricted [OF flag run,
      of RejectAmbiguous "Some ''anything''" "\<lambda>ns sc. sc\<lparr>allowedNamespaces := {''prod''}\<rparr>"]
    empty_allow_list_is_unrestricted [OF flag run, of DefaultToSole None]
    flag run
  show ?thesis
    by (simp add: NewConfig_def NewSecurityConfig_def)
qed

end
